theory Spec2Isabelle
  imports Main
begin

section \<open>Data model of \<open>qr_attendance/app.py\<close>\<close>

text \<open>
  The four tables touched by the routes \<open>admin_generate_qr\<close> and \<open>student_scan\<close>.
  Primary keys and foreign keys are Python/SQL integers (\<open>int\<close>); the \<open>DateTime\<close> columns
  are instants counted in microseconds (the resolution of \<open>datetime\<close>); \<open>Date\<close> and
  \<open>Time\<close> columns are kept as opaque integers since no route modelled here reads them.
  Instants are unbounded: the range of \<open>datetime\<close> (years 1 to 9999) is not modelled.
  The column \<open>active\<close> is a \<open>bool\<close>: the source only ever writes \<open>True\<close> and
  \<open>False\<close> to it.
  A field \<open>x\<close> of a model class is named with the prefix of its class
  (\<open>s_\<close>, \<open>cs_\<close>, \<open>qr_\<close>, \<open>a_\<close>), since record fields share one name space.
\<close>

type_synonym datetime = int

record student =
  s_id :: int
  s_roll_number :: string
  s_name :: string
  s_batch :: string
  s_course :: string
  s_year :: string
  s_device_id :: "string option"

record class_session =
  cs_id :: int
  cs_course :: string
  cs_batch :: string
  cs_room :: string
  cs_teacher_id :: int
  cs_date :: int
  cs_start_time :: int
  cs_end_time :: int

record qr_session =
  qr_id :: int
  qr_class_session_id :: int
  qr_token :: string
  qr_created_at :: datetime
  qr_expires_at :: datetime
  qr_active :: bool

record attendance =
  a_id :: int
  a_student_id :: int
  a_class_session_id :: int
  a_timestamp :: datetime
  a_status :: string

text \<open>The database: each table is the list of its rows, in insertion order.\<close>

record db =
  students :: "student list"
  class_sessions :: "class_session list"
  qr_sessions :: "qr_session list"
  attendances :: "attendance list"

section \<open>Requests and responses\<close>

datatype http_method = GET | POST | HEAD

text \<open>
  What \<open>student_scan\<close> reads of the request: the method, the query parameters \<open>sid\<close>
  and \<open>token\<close> (\<open>request.args.get\<close>, \<open>None\<close> when absent) and the form field
  \<open>roll\<close> (\<open>request.form.get\<close>).
\<close>

record request =
  req_method :: http_method
  args_sid :: "string option"
  args_token :: "string option"
  form_roll :: "string option"

text \<open>
  The values the two routes return. \<open>Text body code\<close> is \<open>return body, code\<close>;
  \<open>Flash_redirect msg category\<close> is \<open>flash(msg, category)\<close> followed by
  \<open>redirect(request.url)\<close>; the \<open>Render_\<close> constructors are the calls of
  \<open>render_template\<close>, with exactly the keyword arguments the source passes (for
  \<open>admin_qr.html\<close> the image \<open>qr\<close> is represented by the \<open>sid\<close> and \<open>token\<close>
  of the URL it encodes); \<open>Internal_error\<close> is an uncaught exception of the view.
\<close>

datatype response =
    Text string nat
  | Redirect_login
  | Not_found
  | Flash_redirect string string
  | Render_admin_qr "int \<times> string" datetime class_session
  | Render_scan "class_session option" qr_session
  | Render_success student class_session qr_session
  | Internal_error

section \<open>Store operations\<close>

text \<open>
  The key SQLite gives a row inserted without one: the largest key of the table plus one,
  and \<open>1\<close> in an empty table.
\<close>

definition next_rowid :: "int list \<Rightarrow> int" where
  "next_rowid ids = (case ids of [] \<Rightarrow> 1 | x # xs \<Rightarrow> fold max xs x + 1)"

text \<open>\<open>timedelta(seconds=n)\<close>, in microseconds.\<close>

definition timedelta_seconds :: "int \<Rightarrow> int" where
  "timedelta_seconds n = n * 1000000"

text \<open>
  \<open>QRSession.query.get(sid)\<close>. The argument is the text of the query parameter, which
  the store coerces to a primary key; that coercion is done by the database, not by the
  source, and is the parameter \<open>to_pk\<close> (\<open>None\<close> when the text denotes no key).
\<close>

definition QRSession_get :: "(string \<Rightarrow> int option) \<Rightarrow> db \<Rightarrow> string \<Rightarrow> qr_session option" where
  "QRSession_get to_pk st sid =
     (case to_pk sid of
        None \<Rightarrow> None
      | Some k \<Rightarrow> find (\<lambda>q. qr_id q = k) (qr_sessions st))"

text \<open>\<open>ClassSession.query.get(cid)\<close>, also the relationship \<open>qs.class_session\<close>.\<close>

definition ClassSession_get :: "db \<Rightarrow> int \<Rightarrow> class_session option" where
  "ClassSession_get st cid = find (\<lambda>c. cs_id c = cid) (class_sessions st)"

text \<open>\<open>Student.query.filter_by(roll_number=roll, batch=b, course=c).first()\<close>.\<close>

definition Student_first :: "db \<Rightarrow> string \<Rightarrow> string \<Rightarrow> string \<Rightarrow> student option" where
  "Student_first st roll b c =
     find (\<lambda>s. s_roll_number s = roll \<and> s_batch s = b \<and> s_course s = c) (students st)"

text \<open>\<open>Attendance.query.filter_by(student_id=i, class_session_id=j).first()\<close>.\<close>

definition Attendance_first :: "db \<Rightarrow> int \<Rightarrow> int \<Rightarrow> attendance option" where
  "Attendance_first st i j =
     find (\<lambda>a. a_student_id a = i \<and> a_class_session_id a = j) (attendances st)"

section \<open>Token issuance: \<open>admin_generate_qr\<close>\<close>

text \<open>
  \<open>QRSession.query.filter_by(class_session_id=cid, active=True).update({"active": False})\<close>
  on one row.
\<close>

definition deactivate :: "int \<Rightarrow> qr_session \<Rightarrow> qr_session" where
  "deactivate cid q =
     (if qr_class_session_id q = cid \<and> qr_active q then q\<lparr>qr_active := False\<rparr> else q)"

text \<open>
  The row \<open>qs\<close> the route builds (lines 339 to 349): \<open>token\<close> is the value drawn by
  \<open>secrets.token_urlsafe(16)\<close>, \<open>now\<close> the reading of \<open>datetime.utcnow()\<close>; the key
  is the one the store assigns at the insertion.
\<close>

definition issued :: "string \<Rightarrow> datetime \<Rightarrow> int \<Rightarrow> db \<Rightarrow> qr_session" where
  "issued token now cid st =
     \<lparr>qr_id = next_rowid (map qr_id (qr_sessions st)),
      qr_class_session_id = cid,
      qr_token = token,
      qr_created_at = now,
      qr_expires_at = now + timedelta_seconds 30,
      qr_active = True\<rparr>"

text \<open>
  The route. \<open>role\<close> is \<open>session.get("role")\<close>; \<open>login_required("admin")\<close> compares it
  with \<open>"admin"\<close>. \<open>get_or_404\<close> aborts when the class session is absent. The update
  and the insertion are committed together.
\<close>

definition admin_generate_qr ::
  "string option \<Rightarrow> string \<Rightarrow> datetime \<Rightarrow> int \<Rightarrow> db \<Rightarrow> response \<times> db" where
  "admin_generate_qr role token now cid st =
     (if role \<noteq> Some ''admin'' then (Redirect_login, st)
      else case ClassSession_get st cid of
        None \<Rightarrow> (Not_found, st)
      | Some session_obj \<Rightarrow>
          let qs = issued token now cid st
          in (Render_admin_qr (qr_id qs, token) (qr_expires_at qs) session_obj,
              st\<lparr>qr_sessions := map (deactivate cid) (qr_sessions st) @ [qs]\<rparr>))"

section \<open>Scanning: \<open>student_scan\<close>\<close>

text \<open>
  Lines 450 to 463 of \<open>student_scan\<close>, run for every method: the checks of the query
  parameters and of the stored token against the clock reading \<open>now\<close>. The result is
  the early return, or the token row with \<open>qs.class_session\<close>.
\<close>

definition validate ::
  "(string \<Rightarrow> int option) \<Rightarrow> datetime \<Rightarrow> db \<Rightarrow> string option \<Rightarrow> string option
     \<Rightarrow> response + (qr_session \<times> class_session option)" where
  "validate to_pk now st sid token =
     (case (sid, token) of
        (Some s, Some t) \<Rightarrow>
          if s = [] \<or> t = [] then Inl (Text ''Invalid QR parameters'' 400)
          else (case QRSession_get to_pk st s of
                  None \<Rightarrow> Inl (Text ''Invalid or inactive QR session'' 400)
                | Some qs \<Rightarrow>
                    if qr_token qs \<noteq> t \<or> \<not> qr_active qs
                    then Inl (Text ''Invalid or inactive QR session'' 400)
                    else if now > qr_expires_at qs then Inl (Text ''QR expired'' 400)
                    else Inr (qs, ClassSession_get st (qr_class_session_id qs)))
      | _ \<Rightarrow> Inl (Text ''Invalid QR parameters'' 400))"

text \<open>
  Lines 465 to 488: the body run for \<open>POST\<close>. \<open>now_ins\<close> is the reading of
  \<open>datetime.utcnow\<close> taken by the column default of \<open>Attendance.timestamp\<close> when the
  row is inserted. Reading \<open>class_sess.batch\<close> when the relationship is \<open>None\<close> raises.
\<close>

definition post_roll ::
  "datetime \<Rightarrow> db \<Rightarrow> qr_session \<Rightarrow> class_session option \<Rightarrow> string option \<Rightarrow> response \<times> db" where
  "post_roll now_ins st qs class_sess roll =
     (case roll of
        None \<Rightarrow> (Flash_redirect ''Please enter roll number'' ''danger'', st)
      | Some r \<Rightarrow>
          if r = [] then (Flash_redirect ''Please enter roll number'' ''danger'', st)
          else (case class_sess of
                  None \<Rightarrow> (Internal_error, st)
                | Some c \<Rightarrow>
                    (case Student_first st r (cs_batch c) (cs_course c) of
                       None \<Rightarrow> (Flash_redirect ''Invalid roll number for this session'' ''danger'', st)
                     | Some stu \<Rightarrow>
                         (case Attendance_first st (s_id stu) (cs_id c) of
                            Some _ \<Rightarrow> (Text ''Attendance already marked for this session'' 200, st)
                          | None \<Rightarrow>
                              let a = \<lparr>a_id = next_rowid (map a_id (attendances st)),
                                       a_student_id = s_id stu,
                                       a_class_session_id = cs_id c,
                                       a_timestamp = now_ins,
                                       a_status = ''Present''\<rparr>
                              in (Render_success stu c qs,
                                  st\<lparr>attendances := attendances st @ [a]\<rparr>)))))"

definition student_scan ::
  "(string \<Rightarrow> int option) \<Rightarrow> datetime \<Rightarrow> datetime \<Rightarrow> request \<Rightarrow> db \<Rightarrow> response \<times> db" where
  "student_scan to_pk now now_ins req st =
     (case validate to_pk now st (args_sid req) (args_token req) of
        Inl r \<Rightarrow> (r, st)
      | Inr (qs, class_sess) \<Rightarrow>
          if req_method req = POST then post_roll now_ins st qs class_sess (form_roll req)
          else (Render_scan class_sess qs, st))"

text \<open>The response of a check-in that recorded attendance (line 488).\<close>

fun is_success :: "response \<Rightarrow> bool" where
  "is_success (Render_success stu c qs) = True"
| "is_success r = False"

text \<open>
  The same request submitted again and again: one call of \<open>student_scan\<close> for each
  pair of clock readings, each on the store the previous call left.
\<close>

fun scan_all ::
  "(string \<Rightarrow> int option) \<Rightarrow> request \<Rightarrow> (datetime \<times> datetime) list \<Rightarrow> db
     \<Rightarrow> response list \<times> db" where
  "scan_all to_pk req [] st = ([], st)"
| "scan_all to_pk req ((now, now_ins) # ts) st =
     (case student_scan to_pk now now_ins req st of
        (r, st1) \<Rightarrow> (case scan_all to_pk req ts st1 of (rs, st2) \<Rightarrow> (r # rs, st2)))"

section \<open>A concrete database\<close>

text \<open>
  A coercion of the parameter text to a key, for the examples: a non-empty string of
  decimal digits denotes its value, anything else no key.
\<close>

fun digits_value :: "string \<Rightarrow> int \<Rightarrow> int option" where
  "digits_value [] acc = Some acc"
| "digits_value (c # cs) acc =
     (let n = (of_char c :: nat)
      in if 48 \<le> n \<and> n \<le> 57 then digits_value cs (10 * acc + (int n - 48)) else None)"

definition decimal_pk :: "string \<Rightarrow> int option" where
  "decimal_pk s = (if s = [] then None else digits_value s 0)"

definition ex_session :: class_session where
  "ex_session = \<lparr>cs_id = 1, cs_course = ''CS101'', cs_batch = ''B1'', cs_room = ''R12'',
     cs_teacher_id = 1, cs_date = 0, cs_start_time = 0, cs_end_time = 0\<rparr>"

definition ex_alice :: student where
  "ex_alice = \<lparr>s_id = 1, s_roll_number = ''R001'', s_name = ''Alice'', s_batch = ''B1'',
     s_course = ''CS101'', s_year = ''1'', s_device_id = None\<rparr>"

text \<open>A student of another batch.\<close>

definition ex_bob :: student where
  "ex_bob = \<lparr>s_id = 2, s_roll_number = ''R002'', s_name = ''Bob'', s_batch = ''B2'',
     s_course = ''CS101'', s_year = ''1'', s_device_id = None\<rparr>"

definition ex_db :: db where
  "ex_db = \<lparr>students = [ex_alice, ex_bob], class_sessions = [ex_session],
     qr_sessions = [], attendances = []\<rparr>"

text \<open>The token issued for session 1 at instant 0 with secret \<open>tokA\<close>, and its store.\<close>

definition ex_qr :: qr_session where
  "ex_qr = \<lparr>qr_id = 1, qr_class_session_id = 1, qr_token = ''tokA'', qr_created_at = 0,
     qr_expires_at = 30000000, qr_active = True\<rparr>"

definition ex_db1 :: db where
  "ex_db1 = ex_db\<lparr>qr_sessions := [ex_qr]\<rparr>"

text \<open>The store after a second issuance for the same session, 5 seconds later.\<close>

definition ex_qr2 :: qr_session where
  "ex_qr2 = \<lparr>qr_id = 2, qr_class_session_id = 1, qr_token = ''tokB'',
     qr_created_at = 5000000, qr_expires_at = 35000000, qr_active = True\<rparr>"

definition ex_db2 :: db where
  "ex_db2 = ex_db\<lparr>qr_sessions := [ex_qr\<lparr>qr_active := False\<rparr>, ex_qr2]\<rparr>"

text \<open>A scan of token 1 with a roll number submitted, and the same scan read with GET.\<close>

definition ex_post :: "string \<Rightarrow> request" where
  "ex_post roll = \<lparr>req_method = POST, args_sid = Some ''1'', args_token = Some ''tokA'',
     form_roll = Some roll\<rparr>"

definition ex_get :: request where
  "ex_get = \<lparr>req_method = GET, args_sid = Some ''1'', args_token = Some ''tokA'',
     form_roll = None\<rparr>"

text \<open>The record of Alice's check-in at instant \<open>t\<close>, and the store holding it.\<close>

definition ex_record :: "datetime \<Rightarrow> attendance" where
  "ex_record t = \<lparr>a_id = 1, a_student_id = 1, a_class_session_id = 1, a_timestamp = t,
     a_status = ''Present''\<rparr>"

definition ex_db_marked :: "datetime \<Rightarrow> db" where
  "ex_db_marked t = ex_db1\<lparr>attendances := [ex_record t]\<rparr>"

section \<open>Facts about the store operations\<close>

lemmas ex_defs = ex_db_def ex_db1_def ex_db2_def ex_qr_def ex_qr2_def ex_session_def ex_alice_def ex_bob_def
  ex_post_def ex_get_def ex_record_def ex_db_marked_def
lemmas op_defs = validate_def QRSession_get_def ClassSession_get_def Student_first_def Attendance_first_def
  post_roll_def student_scan_def admin_generate_qr_def issued_def deactivate_def next_rowid_def timedelta_seconds_def decimal_pk_def

lemma fold_max_ge: "x \<le> fold max xs (x::int)"
  by (induction xs arbitrary: x) (auto intro: order_trans [OF max.cobounded2])

lemma fold_max_upper: "y \<in> set xs \<Longrightarrow> y \<le> fold max xs (x::int)"
proof (induction xs arbitrary: x)
  case Nil
  then show ?case by simp
next
  case (Cons z zs)
  show ?case
  proof (cases "y = z")
    case True
    have "z \<le> max z x" by simp
    also have "\<dots> \<le> fold max zs (max z x)" by (rule fold_max_ge)
    finally show ?thesis using True by simp
  next
    case False
    with Cons.prems have "y \<in> set zs" by simp
    then show ?thesis using Cons.IH by simp
  qed
qed

lemma next_rowid_fresh: "next_rowid ids \<notin> set ids"
proof (cases ids)
  case Nil
  then show ?thesis by simp
next
  case (Cons x xs)
  have "\<And>y. y \<in> set (x # xs) \<Longrightarrow> y < next_rowid (x # xs)"
    using fold_max_ge [of x xs] fold_max_upper [of _ xs x]
    by (auto simp: next_rowid_def intro: le_less_trans)
  then show ?thesis using Cons by blast
qed

lemma issued_fresh: "q \<in> set (qr_sessions st) \<Longrightarrow> qr_id q \<noteq> qr_id (issued token now cid st)"
proof -
  assume "q \<in> set (qr_sessions st)"
  then have "qr_id q \<in> set (map qr_id (qr_sessions st))" by simp
  moreover have "next_rowid (map qr_id (qr_sessions st)) \<notin> set (map qr_id (qr_sessions st))"
    by (rule next_rowid_fresh)
  ultimately have "qr_id q \<noteq> next_rowid (map qr_id (qr_sessions st))" by metis
  then show ?thesis by (simp add: issued_def)
qed

lemma deactivate_id [simp]: "qr_id (deactivate cid q) = qr_id q"
  by (simp add: deactivate_def)

lemma deactivate_session [simp]: "qr_class_session_id (deactivate cid q) = qr_class_session_id q"
  by (simp add: deactivate_def)

lemma deactivate_inactive: "qr_class_session_id q = cid \<Longrightarrow> \<not> qr_active (deactivate cid q)"
  by (simp add: deactivate_def)

lemma deactivate_other: "qr_class_session_id q \<noteq> cid \<Longrightarrow> deactivate cid q = q"
  by (simp add: deactivate_def)

lemma deactivate_eq: "qr_class_session_id q = cid \<Longrightarrow> deactivate cid q = q\<lparr>qr_active := False\<rparr>"
  by (simp add: deactivate_def)

lemma filter_active_deactivated:
  "filter (\<lambda>q. qr_class_session_id q = cid \<and> qr_active q) (map (deactivate cid) qs) = []"
  by (induction qs) (auto simp: deactivate_def)

lemma filter_other_deactivated:
  "filter (\<lambda>q. qr_class_session_id q \<noteq> cid) (map (deactivate cid) qs)
     = filter (\<lambda>q. qr_class_session_id q \<noteq> cid) qs"
  by (induction qs) (auto simp: deactivate_def)

lemma admin_generate_qr_success:
  assumes "admin_generate_qr role token now cid st = (Render_admin_qr p e c, st')"
  shows "role = Some ''admin''" and "ClassSession_get st cid = Some c"
    and "p = (qr_id (issued token now cid st), token)"
    and "e = qr_expires_at (issued token now cid st)"
    and "st' = st\<lparr>qr_sessions := map (deactivate cid) (qr_sessions st) @ [issued token now cid st]\<rparr>"
  using assms by (auto simp: admin_generate_qr_def Let_def split: if_splits option.splits)

section \<open>Token issuance\<close>

text \<open>
  Claim C2. Whenever \<open>admin_generate_qr\<close> returns the rendered code, from any store (so
  after every issuance of any sequence), the rows of the class session \<open>cid\<close> with
  \<open>active = True\<close> are exactly one row, the row just inserted, whose key and secret
  are the ones encoded in the response; every row that was there before keeps its
  position and key, which differs from the new key, and when it belongs to the class
  session \<open>cid\<close> it is now the old row with \<open>active = False\<close>.
\<close>

theorem issue_exactly_one_active:
  assumes "admin_generate_qr role token now cid st = (Render_admin_qr p e c, st')"
  shows "filter (\<lambda>q. qr_class_session_id q = cid \<and> qr_active q) (qr_sessions st')
           = [issued token now cid st]
       \<and> p = (qr_id (issued token now cid st), token)
       \<and> length (qr_sessions st') = Suc (length (qr_sessions st))
       \<and> (\<forall>i < length (qr_sessions st).
            qr_id (qr_sessions st' ! i) = qr_id (qr_sessions st ! i)
          \<and> qr_id (qr_sessions st' ! i) \<noteq> qr_id (issued token now cid st)
          \<and> (qr_class_session_id (qr_sessions st ! i) = cid
               \<longrightarrow> qr_sessions st' ! i = (qr_sessions st ! i)\<lparr>qr_active := False\<rparr>))"
proof -
  let ?qs = "issued token now cid st"
  note s = admin_generate_qr_success [OF assms]
  have st': "qr_sessions st' = map (deactivate cid) (qr_sessions st) @ [?qs]"
    using s(5) by simp
  have new: "qr_class_session_id ?qs = cid \<and> qr_active ?qs"
    by (simp add: issued_def)
  have one: "filter (\<lambda>q. qr_class_session_id q = cid \<and> qr_active q) (qr_sessions st') = [?qs]"
    using new by (simp add: st' filter_active_deactivated)
  have old: "qr_id (qr_sessions st' ! i) = qr_id (qr_sessions st ! i)
      \<and> qr_id (qr_sessions st' ! i) \<noteq> qr_id ?qs
      \<and> (qr_class_session_id (qr_sessions st ! i) = cid
           \<longrightarrow> qr_sessions st' ! i = (qr_sessions st ! i)\<lparr>qr_active := False\<rparr>)"
    if "i < length (qr_sessions st)" for i
  proof -
    have nth: "qr_sessions st' ! i = deactivate cid (qr_sessions st ! i)"
      using that by (simp add: st' nth_append)
    have "qr_sessions st ! i \<in> set (qr_sessions st)" using that by simp
    then have "qr_id (qr_sessions st ! i) \<noteq> qr_id ?qs" by (rule issued_fresh)
    then show ?thesis by (simp add: nth deactivate_eq)
  qed
  have len: "length (qr_sessions st') = Suc (length (qr_sessions st))"
    by (simp add: st')
  from one s(3) len old show ?thesis by blast
qed

text \<open>
  The second issuance for session 1: the first token is deactivated, the second is the
  only active one.
\<close>

theorem issue_exactly_one_active_witness:
  "admin_generate_qr (Some ''admin'') ''tokB'' 5000000 1 ex_db1
      = (Render_admin_qr (2, ''tokB'') 35000000 ex_session, ex_db2)
   \<and> filter (\<lambda>q. qr_class_session_id q = 1 \<and> qr_active q) (qr_sessions ex_db2) = [ex_qr2]
   \<and> qr_sessions ex_db2 ! 0 = ex_qr\<lparr>qr_active := False\<rparr>"
proof -
  have run: "admin_generate_qr (Some ''admin'') ''tokB'' 5000000 1 ex_db1
      = (Render_admin_qr (2, ''tokB'') 35000000 ex_session, ex_db2)"
    by (simp add: ex_defs op_defs)
  have new: "issued ''tokB'' 5000000 1 ex_db1 = ex_qr2"
    by (simp add: ex_defs op_defs)
  have old: "qr_sessions ex_db1 = [ex_qr]" "qr_class_session_id ex_qr = 1"
    by (simp_all add: ex_defs)
  show ?thesis
    using issue_exactly_one_active [OF run] run by (simp add: new old)
qed

text \<open>
  Claim C10. Whatever \<open>admin_generate_qr\<close> returns, the students, the class sessions
  and the attendance records are the ones of the store before, and so is every token row
  whose class session is not \<open>cid\<close>: each keeps its position with all its fields, and
  the rows of the other sessions, in order, are the same list as before.
\<close>

theorem issue_frame:
  "students (snd (admin_generate_qr role token now cid st)) = students st
   \<and> class_sessions (snd (admin_generate_qr role token now cid st)) = class_sessions st
   \<and> attendances (snd (admin_generate_qr role token now cid st)) = attendances st
   \<and> filter (\<lambda>q. qr_class_session_id q \<noteq> cid) (qr_sessions (snd (admin_generate_qr role token now cid st)))
       = filter (\<lambda>q. qr_class_session_id q \<noteq> cid) (qr_sessions st)
   \<and> (\<forall>i < length (qr_sessions st). qr_class_session_id (qr_sessions st ! i) \<noteq> cid
        \<longrightarrow> i < length (qr_sessions (snd (admin_generate_qr role token now cid st)))
          \<and> qr_sessions (snd (admin_generate_qr role token now cid st)) ! i = qr_sessions st ! i)"
  by (auto simp: admin_generate_qr_def Let_def filter_other_deactivated issued_def nth_append deactivate_other
      split: option.splits)

text \<open>
  An issuance for a session 7, added to the example for this purpose, leaves the token of
  session 1 as it is, still active.
\<close>

theorem issue_frame_witness:
  "qr_sessions (snd (admin_generate_qr (Some ''admin'') ''tokC'' 9000000 7
       (ex_db1\<lparr>class_sessions := [ex_session, ex_session\<lparr>cs_id := 7\<rparr>]\<rparr>))) ! 0 = ex_qr
   \<and> students (snd (admin_generate_qr (Some ''admin'') ''tokC'' 9000000 7
       (ex_db1\<lparr>class_sessions := [ex_session, ex_session\<lparr>cs_id := 7\<rparr>]\<rparr>))) = [ex_alice, ex_bob]"
proof -
  let ?st = "ex_db1\<lparr>class_sessions := [ex_session, ex_session\<lparr>cs_id := 7\<rparr>]\<rparr>"
  have old: "qr_sessions ?st = [ex_qr]" "qr_class_session_id ex_qr \<noteq> 7"
    "students ?st = [ex_alice, ex_bob]"
    by (simp_all add: ex_defs)
  show ?thesis
    using issue_frame [of "Some ''admin''" "''tokC''" 9000000 7 ?st] by (simp add: old)
qed

lemma validate_found:
  assumes "QRSession_get to_pk st s = Some qs" and "s \<noteq> []" and "t \<noteq> []"
  shows "validate to_pk now st (Some s) (Some t) =
     (if qr_token qs \<noteq> t \<or> \<not> qr_active qs then Inl (Text ''Invalid or inactive QR session'' 400)
      else if now > qr_expires_at qs then Inl (Text ''QR expired'' 400)
      else Inr (qs, ClassSession_get st (qr_class_session_id qs)))"
  using assms by (simp add: validate_def)

lemma validate_empty_secret:
  "validate to_pk now st (Some s) (Some []) = Inl (Text ''Invalid QR parameters'' 400)"
  by (simp add: validate_def)

section \<open>Token validation\<close>

text \<open>
  Claim C3. For a stored token \<open>qs\<close> that the supplied identifier resolves to, and a
  supplied secret, the checks of \<open>student_scan\<close> succeed, returning the token with its
  class session, exactly when \<open>now \<le> expires_at\<close>, \<open>active\<close> is true and the stored
  secret equals the supplied one; otherwise they return an error. The scan form (GET) is
  rendered under the same condition. The identifier is non-empty, and the supplied or the
  stored secret is: the route reads an empty parameter as a missing one, and no issued
  secret is empty.
\<close>

theorem validate_succeeds_iff:
  assumes "QRSession_get to_pk st s = Some qs" and "s \<noteq> []" and "t \<noteq> [] \<or> qr_token qs \<noteq> []"
  shows "(validate to_pk now st (Some s) (Some t) = Inr (qs, ClassSession_get st (qr_class_session_id qs)))
           = (now \<le> qr_expires_at qs \<and> qr_active qs \<and> qr_token qs = t)
       \<and> (\<exists>e. validate to_pk now st (Some s) (Some t) = Inl e)
           = (\<not> (now \<le> qr_expires_at qs \<and> qr_active qs \<and> qr_token qs = t))
       \<and> (\<forall>req. args_sid req = Some s \<and> args_token req = Some t \<and> req_method req = GET \<longrightarrow>
            (student_scan to_pk now now_ins req st
               = (Render_scan (ClassSession_get st (qr_class_session_id qs)) qs, st))
             = (now \<le> qr_expires_at qs \<and> qr_active qs \<and> qr_token qs = t))"
proof (cases "t = []")
  case True
  with assms(3) have "qr_token qs \<noteq> t" by simp
  then show ?thesis using True by (simp add: validate_empty_secret student_scan_def)
next
  case False
  show ?thesis
    by (auto simp: validate_found [OF assms(1,2) False] student_scan_def)
qed

text \<open>Token 1 validates at 29 s, not at 31 s, and not with the secret of another token.\<close>

theorem validate_succeeds_iff_witness:
  "validate decimal_pk 29000000 ex_db1 (Some ''1'') (Some ''tokA'') = Inr (ex_qr, Some ex_session)
   \<and> (\<exists>e. validate decimal_pk 31000000 ex_db1 (Some ''1'') (Some ''tokA'') = Inl e)
   \<and> (\<exists>e. validate decimal_pk 29000000 ex_db1 (Some ''1'') (Some ''tokB'') = Inl e)
   \<and> student_scan decimal_pk 29000000 29000001 ex_get ex_db1 = (Render_scan (Some ex_session) ex_qr, ex_db1)"
proof -
  have found: "QRSession_get decimal_pk ex_db1 ''1'' = Some ex_qr"
    by (simp add: ex_defs op_defs)
  have cs: "ClassSession_get ex_db1 (qr_class_session_id ex_qr) = Some ex_session"
    by (simp add: ex_defs op_defs)
  have qr: "qr_expires_at ex_qr = 30000000" "qr_active ex_qr" "qr_token ex_qr = ''tokA''"
    by (simp_all add: ex_defs)
  have get: "args_sid ex_get = Some ''1''" "args_token ex_get = Some ''tokA''" "req_method ex_get = GET"
    by (simp_all add: ex_defs)
  show ?thesis
    using validate_succeeds_iff [OF found, of "''tokA''" 29000000 29000001]
      validate_succeeds_iff [OF found, of "''tokA''" 31000000 0]
      validate_succeeds_iff [OF found, of "''tokB''" 29000000 0] get
    by (simp add: cs qr)
qed

text \<open>
  Claim C5, as stated, fails: the route has one early return for the three conditions
  \<open>not qs or qs.token != token or not qs.active\<close>. In the store after two issuances an
  unknown identifier, a wrong secret for token 2 and the right secret for the superseded
  token 1 all get the same response.
\<close>

theorem validate_error_kinds_counterexample:
  "QRSession_get decimal_pk ex_db2 ''9'' = None
   \<and> QRSession_get decimal_pk ex_db2 ''2'' = Some ex_qr2 \<and> qr_token ex_qr2 \<noteq> ''tokX''
   \<and> QRSession_get decimal_pk ex_db2 ''1'' = Some (ex_qr\<lparr>qr_active := False\<rparr>)
   \<and> validate decimal_pk 1000000 ex_db2 (Some ''9'') (Some ''tokB'')
        = Inl (Text ''Invalid or inactive QR session'' 400)
   \<and> validate decimal_pk 1000000 ex_db2 (Some ''2'') (Some ''tokX'')
        = Inl (Text ''Invalid or inactive QR session'' 400)
   \<and> validate decimal_pk 1000000 ex_db2 (Some ''1'') (Some ''tokA'')
        = Inl (Text ''Invalid or inactive QR session'' 400)"
  by (simp add: ex_defs op_defs)

text \<open>
  Claim C5, amended. With both parameters supplied, validation returns two distinct
  error kinds: \<open>Invalid or inactive QR session\<close> (400) when no token has the given
  identifier, when the stored secret differs from the supplied one, or when the token is
  inactive, the three not being told apart; and \<open>QR expired\<close> (400) exactly when the
  token is found, matches and is active but \<open>now > expires_at\<close>. No other error is
  returned.
\<close>

theorem validate_error_kinds:
  assumes "s \<noteq> []" and "t \<noteq> []"
  shows "(QRSession_get to_pk st s = None
            \<longrightarrow> validate to_pk now st (Some s) (Some t) = Inl (Text ''Invalid or inactive QR session'' 400))
       \<and> (\<forall>qs. QRSession_get to_pk st s = Some qs \<and> (qr_token qs \<noteq> t \<or> \<not> qr_active qs)
            \<longrightarrow> validate to_pk now st (Some s) (Some t) = Inl (Text ''Invalid or inactive QR session'' 400))
       \<and> (\<forall>qs. QRSession_get to_pk st s = Some qs \<and> qr_token qs = t \<and> qr_active qs
                 \<and> now > qr_expires_at qs
            \<longrightarrow> validate to_pk now st (Some s) (Some t) = Inl (Text ''QR expired'' 400))
       \<and> (\<forall>e. validate to_pk now st (Some s) (Some t) = Inl e
            \<longrightarrow> e = Text ''Invalid or inactive QR session'' 400 \<or> e = Text ''QR expired'' 400)
       \<and> (validate to_pk now st (Some s) (Some t) = Inl (Text ''QR expired'' 400)
            \<longrightarrow> (\<exists>qs. QRSession_get to_pk st s = Some qs \<and> qr_token qs = t \<and> qr_active qs
                      \<and> now > qr_expires_at qs))
       \<and> Text ''QR expired'' 400 \<noteq> Text ''Invalid or inactive QR session'' 400"
  using assms by (auto simp: validate_def split: option.splits if_splits)

text \<open>An expired token, a wrong secret and an unknown identifier, on the first store.\<close>

theorem validate_error_kinds_witness:
  "validate decimal_pk 31000000 ex_db1 (Some ''1'') (Some ''tokA'') = Inl (Text ''QR expired'' 400)
   \<and> validate decimal_pk 1000000 ex_db1 (Some ''1'') (Some ''tokX'')
        = Inl (Text ''Invalid or inactive QR session'' 400)
   \<and> validate decimal_pk 1000000 ex_db1 (Some ''9'') (Some ''tokA'')
        = Inl (Text ''Invalid or inactive QR session'' 400)"
proof -
  have found: "QRSession_get decimal_pk ex_db1 ''1'' = Some ex_qr"
    and absent: "QRSession_get decimal_pk ex_db1 ''9'' = None"
    by (simp_all add: ex_defs op_defs)
  have qr: "qr_expires_at ex_qr = 30000000" "qr_active ex_qr" "qr_token ex_qr = ''tokA''"
    by (simp_all add: ex_defs)
  have ne: "''1'' \<noteq> []" "''9'' \<noteq> []" "''tokA'' \<noteq> []" "''tokX'' \<noteq> []"
    by simp_all
  show ?thesis
    using validate_error_kinds [OF ne(1) ne(3), of decimal_pk ex_db1 31000000]
      validate_error_kinds [OF ne(1) ne(4), of decimal_pk ex_db1 1000000]
      validate_error_kinds [OF ne(2) ne(3), of decimal_pk ex_db1 1000000]
    by (simp add: found absent qr)
qed

lemma find_append_None: "find P xs = None \<Longrightarrow> find P (xs @ ys) = find P ys"
  by (induction xs) (auto split: if_splits)

lemma find_issued:
  "find (\<lambda>q. qr_id q = qr_id (issued token now cid st))
     (map (deactivate cid) (qr_sessions st) @ [issued token now cid st]) = Some (issued token now cid st)"
proof -
  have "find (\<lambda>q. qr_id q = qr_id (issued token now cid st)) (map (deactivate cid) (qr_sessions st)) = None"
    using issued_fresh [of _ st token now cid] by (auto simp: find_None_iff)
  then show ?thesis by (simp add: find_append_None)
qed

text \<open>
  Claim C6. A token issued at \<open>T0\<close> has \<open>expires_at = T0 + 30 s\<close>; scanned with its
  identifier and secret on the store the issuance leaves, it validates at \<open>T0 + 29 s\<close>
  and fails with \<open>QR expired\<close> at \<open>T0 + 31 s\<close>.
\<close>

theorem token_window_30s:
  assumes "role = Some ''admin''" and "ClassSession_get st cid = Some c"
    and "token \<noteq> []" and "s \<noteq> []" and "to_pk s = Some (qr_id (issued token T0 cid st))"
  shows "fst (admin_generate_qr role token T0 cid st)
           = Render_admin_qr (qr_id (issued token T0 cid st), token) (T0 + timedelta_seconds 30) c
       \<and> qr_expires_at (issued token T0 cid st) = T0 + timedelta_seconds 30
       \<and> validate to_pk (T0 + timedelta_seconds 29) (snd (admin_generate_qr role token T0 cid st))
            (Some s) (Some token) = Inr (issued token T0 cid st, Some c)
       \<and> validate to_pk (T0 + timedelta_seconds 31) (snd (admin_generate_qr role token T0 cid st))
            (Some s) (Some token) = Inl (Text ''QR expired'' 400)"
proof -
  let ?qs = "issued token T0 cid st"
  let ?st' = "st\<lparr>qr_sessions := map (deactivate cid) (qr_sessions st) @ [?qs]\<rparr>"
  have run: "admin_generate_qr role token T0 cid st
      = (Render_admin_qr (qr_id ?qs, token) (qr_expires_at ?qs) c, ?st')"
    using assms(1,2) by (simp add: admin_generate_qr_def Let_def)
  have exp: "qr_expires_at ?qs = T0 + timedelta_seconds 30"
    and tok: "qr_token ?qs = token" and act: "qr_active ?qs"
    and ses: "qr_class_session_id ?qs = cid"
    by (simp_all add: issued_def)
  have found: "QRSession_get to_pk ?st' s = Some ?qs"
    using assms(5) find_issued [of token T0 cid st] by (simp add: QRSession_get_def)
  have cs: "ClassSession_get ?st' cid = Some c"
    using assms(2) by (simp add: ClassSession_get_def)
  have v: "validate to_pk now ?st' (Some s) (Some token) =
     (if now > T0 + timedelta_seconds 30 then Inl (Text ''QR expired'' 400) else Inr (?qs, Some c))" for now
    using validate_found [OF found assms(4) assms(3), of now] by (simp add: exp tok act ses cs)
  show ?thesis
    by (simp add: run exp v timedelta_seconds_def)
qed

text \<open>The first issuance of the example, at instant 0.\<close>

theorem token_window_30s_witness:
  "fst (admin_generate_qr (Some ''admin'') ''tokA'' 0 1 ex_db) = Render_admin_qr (1, ''tokA'') 30000000 ex_session
   \<and> validate decimal_pk 29000000 (snd (admin_generate_qr (Some ''admin'') ''tokA'' 0 1 ex_db))
        (Some ''1'') (Some ''tokA'') = Inr (ex_qr, Some ex_session)
   \<and> validate decimal_pk 31000000 (snd (admin_generate_qr (Some ''admin'') ''tokA'' 0 1 ex_db))
        (Some ''1'') (Some ''tokA'') = Inl (Text ''QR expired'' 400)"
proof -
  have cs: "ClassSession_get ex_db 1 = Some ex_session"
    by (simp add: ex_defs op_defs)
  have new: "issued ''tokA'' 0 1 ex_db = ex_qr"
    by (simp add: ex_defs op_defs)
  have pk: "decimal_pk ''1'' = Some (qr_id (issued ''tokA'' 0 1 ex_db))"
    by (simp add: new) (simp add: ex_defs op_defs)
  have ne: "''tokA'' \<noteq> []" "''1'' \<noteq> []" by simp_all
  have adm: "Some ''admin'' = Some ''admin''" by simp
  show ?thesis
    using token_window_30s [of "Some ''admin''" ex_db 1 ex_session "''tokA''" "''1''" decimal_pk 0,
        OF adm cs ne pk]
    by (simp add: new timedelta_seconds_def) (simp add: ex_qr_def)
qed

text \<open>
  Claim C8. Validation writes nothing: a request of \<open>student_scan\<close> that is not a POST
  runs the validation only, returns the store exactly as it was (tokens, attendance
  records, students and class sessions), answers what \<open>validate\<close> decides, and gives
  the same result when it is repeated on the store it returned.
\<close>

theorem scan_form_read_only:
  assumes "req_method req \<noteq> POST"
  shows "snd (student_scan to_pk now now_ins req st) = st
       \<and> fst (student_scan to_pk now now_ins req st)
           = (case validate to_pk now st (args_sid req) (args_token req) of
                Inl e \<Rightarrow> e
              | Inr (qs, class_sess) \<Rightarrow> Render_scan class_sess qs)
       \<and> student_scan to_pk now now_ins req (snd (student_scan to_pk now now_ins req st))
           = student_scan to_pk now now_ins req st"
proof -
  have "snd (student_scan to_pk now now_ins req st) = st"
    using assms by (simp add: student_scan_def split: sum.splits prod.splits)
  moreover have "fst (student_scan to_pk now now_ins req st)
           = (case validate to_pk now st (args_sid req) (args_token req) of
                Inl e \<Rightarrow> e
              | Inr (qs, class_sess) \<Rightarrow> Render_scan class_sess qs)"
    using assms by (simp add: student_scan_def split: sum.splits prod.splits)
  ultimately show ?thesis by simp
qed

text \<open>The scan form of token 1, requested twice.\<close>

theorem scan_form_read_only_witness:
  "student_scan decimal_pk 2000000 2000001 ex_get ex_db1 = (Render_scan (Some ex_session) ex_qr, ex_db1)
   \<and> student_scan decimal_pk 2000000 2000001 ex_get
        (snd (student_scan decimal_pk 2000000 2000001 ex_get ex_db1))
       = (Render_scan (Some ex_session) ex_qr, ex_db1)"
proof -
  have m: "req_method ex_get \<noteq> POST" by (simp add: ex_defs)
  have v: "validate decimal_pk 2000000 ex_db1 (args_sid ex_get) (args_token ex_get)
      = Inr (ex_qr, Some ex_session)"
    by (simp add: ex_defs op_defs)
  show ?thesis
    using scan_form_read_only [OF m, of decimal_pk 2000000 2000001 ex_db1]
    by (simp add: v prod_eq_iff)
qed

lemma post_roll_failure:
  "\<not> is_success (fst (post_roll now_ins st qs class_sess roll)) \<Longrightarrow>
     snd (post_roll now_ins st qs class_sess roll) = st"
  by (simp add: post_roll_def Let_def split: option.splits if_splits)

section \<open>Check-in\<close>

text \<open>
  Claim C9. Whenever \<open>student_scan\<close> returns anything but the success page (missing
  parameters, unknown token, wrong secret, inactive or expired token, missing, unknown or
  ineligible roll number, and the already-marked answer as well), the store is exactly
  the store before the call, so no attendance record was created.
\<close>

theorem check_in_failure_atomic:
  assumes "\<not> is_success (fst (student_scan to_pk now now_ins req st))"
  shows "snd (student_scan to_pk now now_ins req st) = st"
proof (cases "validate to_pk now st (args_sid req) (args_token req)")
  case (Inl e)
  then show ?thesis by (simp add: student_scan_def)
next
  case (Inr p)
  obtain qs class_sess where p: "p = (qs, class_sess)" by (cases p)
  show ?thesis
  proof (cases "req_method req = POST")
    case True
    with Inr p assms show ?thesis
      by (simp add: student_scan_def post_roll_failure)
  next
    case False
    with Inr p show ?thesis by (simp add: student_scan_def)
  qed
qed

text \<open>An ineligible student, an expired token and a superseded token.\<close>

theorem check_in_failure_atomic_witness:
  "student_scan decimal_pk 1000000 1000001 (ex_post ''R002'') ex_db1
     = (Flash_redirect ''Invalid roll number for this session'' ''danger'', ex_db1)
   \<and> student_scan decimal_pk 31000000 31000001 (ex_post ''R001'') ex_db1
     = (Text ''QR expired'' 400, ex_db1)
   \<and> student_scan decimal_pk 1000000 1000001 (ex_post ''R001'') ex_db2
     = (Text ''Invalid or inactive QR session'' 400, ex_db2)"
proof -
  have r1: "fst (student_scan decimal_pk 1000000 1000001 (ex_post ''R002'') ex_db1)
      = Flash_redirect ''Invalid roll number for this session'' ''danger''"
    by (simp add: ex_defs op_defs)
  have r2: "fst (student_scan decimal_pk 31000000 31000001 (ex_post ''R001'') ex_db1)
      = Text ''QR expired'' 400"
    by (simp add: ex_defs op_defs)
  have r3: "fst (student_scan decimal_pk 1000000 1000001 (ex_post ''R001'') ex_db2)
      = Text ''Invalid or inactive QR session'' 400"
    by (simp add: ex_defs op_defs)
  show ?thesis
    using check_in_failure_atomic [of decimal_pk 1000000 1000001 "ex_post ''R002''" ex_db1]
      check_in_failure_atomic [of decimal_pk 31000000 31000001 "ex_post ''R001''" ex_db1]
      check_in_failure_atomic [of decimal_pk 1000000 1000001 "ex_post ''R001''" ex_db2]
    by (simp add: r1 r2 r3 prod_eq_iff)
qed

lemma student_scan_post:
  assumes "validate to_pk now st (args_sid req) (args_token req) = Inr (qs, class_sess)"
    and "req_method req = POST"
  shows "student_scan to_pk now now_ins req st = post_roll now_ins st qs class_sess (form_roll req)"
  using assms by (simp add: student_scan_def)

lemma validate_cases:
  obtains (params) "validate to_pk now st sid token = Inl (Text ''Invalid QR parameters'' 400)"
  | (invalid) "validate to_pk now st sid token = Inl (Text ''Invalid or inactive QR session'' 400)"
  | (expired) "validate to_pk now st sid token = Inl (Text ''QR expired'' 400)"
  | (ok) s t qs where "sid = Some s" and "token = Some t" and "s \<noteq> []" and "t \<noteq> []"
      and "QRSession_get to_pk st s = Some qs" and "qr_token qs = t" and "qr_active qs"
      and "now \<le> qr_expires_at qs"
      and "validate to_pk now st sid token = Inr (qs, ClassSession_get st (qr_class_session_id qs))"
proof (cases sid)
  case None
  then show ?thesis using params by (simp add: validate_def)
next
  case s: (Some s)
  show ?thesis
  proof (cases token)
    case None
    then show ?thesis using params s by (simp add: validate_def)
  next
    case t: (Some t)
    show ?thesis
    proof (cases "s = [] \<or> t = []")
      case True
      then show ?thesis using params s t by (simp add: validate_def)
    next
      case ne: False
      show ?thesis
      proof (cases "QRSession_get to_pk st s")
        case None
        then show ?thesis using invalid s t ne by (simp add: validate_def)
      next
        case (Some qs)
        have ne': "s \<noteq> []" "t \<noteq> []" using ne by simp_all
        note v = validate_found [OF Some ne', of now]
        show ?thesis
        proof (cases "qr_token qs \<noteq> t \<or> \<not> qr_active qs")
          case True
          then show ?thesis using invalid v s t by simp
        next
          case good: False
          show ?thesis
          proof (cases "now > qr_expires_at qs")
            case True
            then show ?thesis using expired v good s t by simp
          next
            case False
            then show ?thesis using ok [of s t qs] v good s t ne' Some by simp
          qed
        qed
      qed
    qed
  qed
qed

lemma validate_Inr:
  assumes "validate to_pk now st sid token = Inr (qs, class_sess)"
  shows "now \<le> qr_expires_at qs"
    and "n \<le> qr_expires_at qs \<Longrightarrow> validate to_pk n st sid token = Inr (qs, class_sess)"
proof -
  from assms obtain s t where *: "sid = Some s" "token = Some t" "s \<noteq> []" "t \<noteq> []"
      "QRSession_get to_pk st s = Some qs" "qr_token qs = t" "qr_active qs"
      "now \<le> qr_expires_at qs" "class_sess = ClassSession_get st (qr_class_session_id qs)"
    by (cases rule: validate_cases [of to_pk now st sid token]) auto
  show "now \<le> qr_expires_at qs" by (rule *(8))
  show "validate to_pk n st sid token = Inr (qs, class_sess)" if "n \<le> qr_expires_at qs"
    using that * validate_found [OF *(5) *(3) *(4), of n] by simp
qed

lemma validate_frame:
  assumes "qr_sessions st' = qr_sessions st" and "class_sessions st' = class_sessions st"
  shows "validate to_pk now st' sid token = validate to_pk now st sid token"
proof -
  have q: "QRSession_get to_pk st' = QRSession_get to_pk st"
    unfolding QRSession_get_def assms(1) ..
  have c: "ClassSession_get st' = ClassSession_get st"
    unfolding ClassSession_get_def assms(2) ..
  show ?thesis unfolding validate_def q c ..
qed

lemma post_roll_success:
  assumes "post_roll now_ins st qs class_sess roll = (Render_success stu c qs', st')"
  obtains r where "roll = Some r" and "r \<noteq> []" and "class_sess = Some c" and "qs' = qs"
    and "Student_first st r (cs_batch c) (cs_course c) = Some stu"
    and "Attendance_first st (s_id stu) (cs_id c) = None"
    and "st' = st\<lparr>attendances := attendances st @
           [\<lparr>a_id = next_rowid (map a_id (attendances st)), a_student_id = s_id stu,
             a_class_session_id = cs_id c, a_timestamp = now_ins, a_status = ''Present''\<rparr>]\<rparr>"
  using assms
  by (auto simp: post_roll_def Let_def split: if_splits option.splits)

lemma student_scan_success:
  assumes "student_scan to_pk now now_ins req st = (Render_success stu c qs, st')"
  obtains r where "req_method req = POST" and "form_roll req = Some r" and "r \<noteq> []"
    and "validate to_pk now st (args_sid req) (args_token req) = Inr (qs, Some c)"
    and "Student_first st r (cs_batch c) (cs_course c) = Some stu"
    and "Attendance_first st (s_id stu) (cs_id c) = None"
    and "st' = st\<lparr>attendances := attendances st @
           [\<lparr>a_id = next_rowid (map a_id (attendances st)), a_student_id = s_id stu,
             a_class_session_id = cs_id c, a_timestamp = now_ins, a_status = ''Present''\<rparr>]\<rparr>"
proof (cases rule: validate_cases [of to_pk now st "args_sid req" "args_token req"])
  case params
  with assms show ?thesis by (simp add: student_scan_def)
next
  case invalid
  with assms show ?thesis by (simp add: student_scan_def)
next
  case expired
  with assms show ?thesis by (simp add: student_scan_def)
next
  case (ok s t q)
  let ?cs = "ClassSession_get st (qr_class_session_id q)"
  have m: "req_method req = POST"
    using assms ok(9) by (auto simp: student_scan_def split: if_splits)
  then have "post_roll now_ins st q ?cs (form_roll req) = (Render_success stu c qs, st')"
    using assms ok(9) by (simp add: student_scan_def)
  then show ?thesis
    using that m ok(9) by (elim post_roll_success) simp
qed

lemma find_None_filter: "find P xs = None \<Longrightarrow> filter P xs = []"
  by (induction xs) (auto split: if_splits)

lemma post_roll_marked:
  assumes "r \<noteq> []" and "Student_first st r (cs_batch c) (cs_course c) = Some stu"
    and "Attendance_first st (s_id stu) (cs_id c) = Some a"
  shows "post_roll now_ins st qs (Some c) (Some r)
           = (Text ''Attendance already marked for this session'' 200, st)"
  using assms by (simp add: post_roll_def)

lemma scan_all_marked:
  assumes "\<And>n ni. n \<le> e \<Longrightarrow> student_scan to_pk n ni req st = (r, st)"
  shows "(\<forall>(n, ni) \<in> set ts. n \<le> e) \<Longrightarrow> scan_all to_pk req ts st = (replicate (length ts) r, st)"
proof (induction ts)
  case Nil
  show ?case by simp
next
  case (Cons p ts)
  obtain n ni where p: "p = (n, ni)" by (cases p)
  from Cons.prems p have "n \<le> e" and rest: "\<forall>(n, ni) \<in> set ts. n \<le> e" by auto
  from assms [OF \<open>n \<le> e\<close>, of ni] Cons.IH [OF rest] show ?case by (simp add: p)
qed

text \<open>
  Claim C1, as stated, fails in what the later calls return. After Alice's check-in, the
  same request 31 seconds after the issuance is answered \<open>QR expired\<close>, not
  already-marked; and the already-marked answer is a plain text that is the same whatever
  the existing record is, so it does not refer to it.
\<close>

theorem check_in_once_counterexample:
  "student_scan decimal_pk 1000000 1000001 (ex_post ''R001'') ex_db1
     = (Render_success ex_alice ex_session ex_qr, ex_db_marked 1000001)
   \<and> student_scan decimal_pk 31000000 31000001 (ex_post ''R001'') (ex_db_marked 1000001)
     = (Text ''QR expired'' 400, ex_db_marked 1000001)
   \<and> fst (student_scan decimal_pk 2000000 2000001 (ex_post ''R001'') (ex_db_marked 1000001))
     = Text ''Attendance already marked for this session'' 200
   \<and> fst (student_scan decimal_pk 2000000 2000001 (ex_post ''R001'') (ex_db_marked 1000777))
     = Text ''Attendance already marked for this session'' 200
   \<and> attendances (ex_db_marked 1000001) = [ex_record 1000001]
   \<and> attendances (ex_db_marked 1000777) = [ex_record 1000777]
   \<and> ex_record 1000001 \<noteq> ex_record 1000777"
  by (simp add: ex_defs op_defs)

text \<open>
  Claim C1, amended. When a check-in succeeds for a student and a class session, there
  was no record for the pair before, one is appended, and the store then holds exactly
  one record for the pair. Every later check-in with the same roll number whose token
  validates for the same class session, and so every repetition of the same request
  while the token has not expired, is answered with the text
  \<open>Attendance already marked for this session\<close> (200), which carries no record, and
  leaves the store as it is: no second record is created.
\<close>

theorem check_in_once:
  assumes "student_scan to_pk now now_ins req st = (Render_success stu c qs, st')"
  shows "filter (\<lambda>a. a_student_id a = s_id stu \<and> a_class_session_id a = cs_id c) (attendances st) = []
       \<and> attendances st' = attendances st @
            [\<lparr>a_id = next_rowid (map a_id (attendances st)), a_student_id = s_id stu,
              a_class_session_id = cs_id c, a_timestamp = now_ins, a_status = ''Present''\<rparr>]
       \<and> filter (\<lambda>a. a_student_id a = s_id stu \<and> a_class_session_id a = cs_id c) (attendances st')
            = [\<lparr>a_id = next_rowid (map a_id (attendances st)), a_student_id = s_id stu,
                a_class_session_id = cs_id c, a_timestamp = now_ins, a_status = ''Present''\<rparr>]
       \<and> (\<forall>to_pk2 n ni req2 qs2.
             req_method req2 = POST \<and> form_roll req2 = form_roll req
             \<and> validate to_pk2 n st' (args_sid req2) (args_token req2) = Inr (qs2, Some c)
             \<longrightarrow> student_scan to_pk2 n ni req2 st'
                   = (Text ''Attendance already marked for this session'' 200, st'))
       \<and> (\<forall>ts. (\<forall>(n, ni) \<in> set ts. n \<le> qr_expires_at qs)
             \<longrightarrow> scan_all to_pk req ts st'
                   = (replicate (length ts) (Text ''Attendance already marked for this session'' 200), st'))"
proof -
  let ?P = "\<lambda>a. a_student_id a = s_id stu \<and> a_class_session_id a = cs_id c"
  let ?rec = "\<lparr>a_id = next_rowid (map a_id (attendances st)), a_student_id = s_id stu,
              a_class_session_id = cs_id c, a_timestamp = now_ins, a_status = ''Present''\<rparr>"
  let ?marked = "Text ''Attendance already marked for this session'' 200"
  from assms obtain r where m: "req_method req = POST" and f: "form_roll req = Some r"
    and ne: "r \<noteq> []"
    and v: "validate to_pk now st (args_sid req) (args_token req) = Inr (qs, Some c)"
    and stu: "Student_first st r (cs_batch c) (cs_course c) = Some stu"
    and none: "Attendance_first st (s_id stu) (cs_id c) = None"
    and st': "st' = st\<lparr>attendances := attendances st @ [?rec]\<rparr>"
    by (rule student_scan_success)
  have fnone: "find ?P (attendances st) = None"
    using none by (simp add: Attendance_first_def)
  have before: "filter ?P (attendances st) = []"
    using fnone by (rule find_None_filter)
  have att: "attendances st' = attendances st @ [?rec]"
    by (simp add: st')
  have after: "filter ?P (attendances st') = [?rec]"
    by (simp add: att before)
  have stu': "Student_first st' r (cs_batch c) (cs_course c) = Some stu"
    using stu by (simp add: st' Student_first_def)
  have found: "Attendance_first st' (s_id stu) (cs_id c) = Some ?rec"
    using find_append_None [OF fnone, of "[?rec]"] by (simp add: Attendance_first_def att)
  have again: "student_scan to_pk2 n ni req2 st' = (?marked, st')"
    if "req_method req2 = POST" and "form_roll req2 = form_roll req"
      and "validate to_pk2 n st' (args_sid req2) (args_token req2) = Inr (qs2, Some c)"
    for to_pk2 n ni req2 qs2
    using student_scan_post [OF that(3) that(1), of ni] post_roll_marked [OF ne stu' found]
    by (simp add: that(2) f)
  have same: "student_scan to_pk n ni req st' = (?marked, st')" if "n \<le> qr_expires_at qs" for n ni
  proof -
    have "validate to_pk n st' (args_sid req) (args_token req)
        = validate to_pk n st (args_sid req) (args_token req)"
      by (rule validate_frame) (simp_all add: st')
    also have "\<dots> = Inr (qs, Some c)"
      using validate_Inr(2) [OF v that] .
    finally show ?thesis using again [OF m refl] by blast
  qed
  have rep: "scan_all to_pk req ts st' = (replicate (length ts) ?marked, st')"
    if "\<forall>(n, ni) \<in> set ts. n \<le> qr_expires_at qs" for ts
    using same that by (rule scan_all_marked)
  from before att after again rep show ?thesis by blast
qed

text \<open>Alice's check-in, then the same request twice more within the 30 seconds.\<close>

theorem check_in_once_witness:
  "student_scan decimal_pk 1000000 1000001 (ex_post ''R001'') ex_db1
     = (Render_success ex_alice ex_session ex_qr, ex_db_marked 1000001)
   \<and> filter (\<lambda>a. a_student_id a = 1 \<and> a_class_session_id a = 1) (attendances (ex_db_marked 1000001))
     = [ex_record 1000001]
   \<and> scan_all decimal_pk (ex_post ''R001'') [(2000000, 2000001), (29000000, 29000001)]
        (ex_db_marked 1000001)
     = ([Text ''Attendance already marked for this session'' 200,
         Text ''Attendance already marked for this session'' 200], ex_db_marked 1000001)"
proof -
  have run: "student_scan decimal_pk 1000000 1000001 (ex_post ''R001'') ex_db1
     = (Render_success ex_alice ex_session ex_qr, ex_db_marked 1000001)"
    by (simp add: ex_defs op_defs)
  have ids: "s_id ex_alice = 1" "cs_id ex_session = 1" "qr_expires_at ex_qr = 30000000"
    by (simp_all add: ex_defs)
  have rec: "\<lparr>a_id = next_rowid (map a_id (attendances ex_db1)), a_student_id = 1,
      a_class_session_id = 1, a_timestamp = 1000001, a_status = ''Present''\<rparr> = ex_record 1000001"
    by (simp add: ex_defs op_defs)
  have ts: "\<forall>(n, ni) \<in> set [(2000000, 2000001), (29000000, 29000001)]. n \<le> (30000000::int)"
    by simp
  have rp: "replicate (length [(2000000::int, 2000001::int), (29000000, 29000001)]) r = [r, r]" for r :: response
    by (simp add: numeral_2_eq_2)
  from check_in_once [OF run] have
    one: "filter (\<lambda>a. a_student_id a = 1 \<and> a_class_session_id a = 1) (attendances (ex_db_marked 1000001))
       = [ex_record 1000001]"
    and all: "\<forall>ts. (\<forall>(n, ni) \<in> set ts. n \<le> 30000000)
             \<longrightarrow> scan_all decimal_pk (ex_post ''R001'') ts (ex_db_marked 1000001)
                   = (replicate (length ts) (Text ''Attendance already marked for this session'' 200),
                      ex_db_marked 1000001)"
    by (simp_all add: ids rec) (simp_all add: ex_record_def)
  from all ts have "scan_all decimal_pk (ex_post ''R001'') [(2000000, 2000001), (29000000, 29000001)]
        (ex_db_marked 1000001)
     = (replicate (length [(2000000::int, 2000001::int), (29000000, 29000001)])
          (Text ''Attendance already marked for this session'' 200), ex_db_marked 1000001)"
    by blast
  then show ?thesis using run one by (simp only: rp)
qed

text \<open>
  Claim C4, as stated, fails: the student is looked up by roll number, batch and course in
  one query (lines 471 to 475), so a roll number nobody has and the roll number of a
  student of another batch get the same response.
\<close>

theorem unknown_vs_ineligible_counterexample:
  "find (\<lambda>s. s_roll_number s = ''R999'') (students ex_db1) = None
   \<and> find (\<lambda>s. s_roll_number s = ''R002'') (students ex_db1) = Some ex_bob
   \<and> s_batch ex_bob \<noteq> cs_batch ex_session
   \<and> student_scan decimal_pk 1000000 1000001 (ex_post ''R999'') ex_db1
       = (Flash_redirect ''Invalid roll number for this session'' ''danger'', ex_db1)
   \<and> student_scan decimal_pk 1000000 1000001 (ex_post ''R002'') ex_db1
       = (Flash_redirect ''Invalid roll number for this session'' ''danger'', ex_db1)"
  by (simp add: ex_defs op_defs)

text \<open>
  Claim C4, amended. With a valid token, a submitted roll number that no student has, or
  that only students whose batch or course differs from the class session's have, is
  rejected with the one outcome \<open>Invalid roll number for this session\<close>, and the store
  is unchanged: the cohort-mismatched student is always rejected, with the same outcome
  as the unknown one.
\<close>

theorem unknown_or_ineligible_rejected:
  assumes "validate to_pk now st (args_sid req) (args_token req) = Inr (qs, Some c)"
    and "req_method req = POST" and "form_roll req = Some r" and "r \<noteq> []"
    and "\<forall>s \<in> set (students st). s_roll_number s = r \<longrightarrow>
           s_batch s \<noteq> cs_batch c \<or> s_course s \<noteq> cs_course c"
  shows "student_scan to_pk now now_ins req st
           = (Flash_redirect ''Invalid roll number for this session'' ''danger'', st)"
proof -
  have "Student_first st r (cs_batch c) (cs_course c) = None"
    using assms(5) by (auto simp: Student_first_def find_None_iff)
  then show ?thesis
    using assms(1-4) by (simp add: student_scan_def post_roll_def)
qed

text \<open>Bob, of batch B2, and a roll number nobody has.\<close>

theorem unknown_or_ineligible_rejected_witness:
  "student_scan decimal_pk 1000000 1000001 (ex_post ''R002'') ex_db1
       = (Flash_redirect ''Invalid roll number for this session'' ''danger'', ex_db1)
   \<and> student_scan decimal_pk 1000000 1000001 (ex_post ''R999'') ex_db1
       = (Flash_redirect ''Invalid roll number for this session'' ''danger'', ex_db1)"
proof -
  have v: "validate decimal_pk 1000000 ex_db1 (args_sid (ex_post r)) (args_token (ex_post r))
      = Inr (ex_qr, Some ex_session)" for r
    by (simp add: ex_defs op_defs)
  have m: "req_method (ex_post r) = POST" and f: "form_roll (ex_post r) = Some r" for r
    by (simp_all add: ex_defs)
  have bob: "\<forall>s \<in> set (students ex_db1). s_roll_number s = ''R002'' \<longrightarrow>
           s_batch s \<noteq> cs_batch ex_session \<or> s_course s \<noteq> cs_course ex_session"
    by (simp add: ex_defs)
  have nobody: "\<forall>s \<in> set (students ex_db1). s_roll_number s = ''R999'' \<longrightarrow>
           s_batch s \<noteq> cs_batch ex_session \<or> s_course s \<noteq> cs_course ex_session"
    by (simp add: ex_defs)
  have ne: "''R002'' \<noteq> []" "''R999'' \<noteq> []" by simp_all
  show ?thesis
    using unknown_or_ineligible_rejected [OF v m f ne(1) bob, of 1000001]
      unknown_or_ineligible_rejected [OF v m f ne(2) nobody, of 1000001]
    by simp
qed

text \<open>
  Claim C7, as stated, fails in its last part: the success page is rendered from the
  student, the class session and the token (line 488), not from the record. Two check-ins
  that differ only in the instant of the insertion create different records and return
  the same response.
\<close>

theorem check_in_success_record_counterexample:
  "fst (student_scan decimal_pk 1000000 1000001 (ex_post ''R001'') ex_db1)
     = Render_success ex_alice ex_session ex_qr
   \<and> fst (student_scan decimal_pk 1000000 1000777 (ex_post ''R001'') ex_db1)
     = Render_success ex_alice ex_session ex_qr
   \<and> attendances (snd (student_scan decimal_pk 1000000 1000001 (ex_post ''R001'') ex_db1))
     = [ex_record 1000001]
   \<and> attendances (snd (student_scan decimal_pk 1000000 1000777 (ex_post ''R001'') ex_db1))
     = [ex_record 1000777]
   \<and> ex_record 1000001 \<noteq> ex_record 1000777"
  by (simp add: ex_defs op_defs)

text \<open>
  Claim C7, amended. A check-in with a valid token, a roll number that resolves to a
  student of the session's batch and course, and no earlier record for the pair, appends
  one attendance record whose timestamp is the clock reading taken at the insertion and
  whose status is \<open>Present\<close>, for that student and class session; the response is the
  success page of the student, the class session and the token, and does not carry the
  record.
\<close>

theorem check_in_success_record:
  assumes "validate to_pk now st (args_sid req) (args_token req) = Inr (qs, Some c)"
    and "req_method req = POST" and "form_roll req = Some r" and "r \<noteq> []"
    and "Student_first st r (cs_batch c) (cs_course c) = Some stu"
    and "Attendance_first st (s_id stu) (cs_id c) = None"
  shows "student_scan to_pk now now_ins req st =
           (Render_success stu c qs,
            st\<lparr>attendances := attendances st @
               [\<lparr>a_id = next_rowid (map a_id (attendances st)), a_student_id = s_id stu,
                 a_class_session_id = cs_id c, a_timestamp = now_ins, a_status = ''Present''\<rparr>]\<rparr>)"
  using assms by (simp add: student_scan_def post_roll_def)

text \<open>Alice checks in with token 1, one second after its issuance.\<close>

theorem check_in_success_record_witness:
  "student_scan decimal_pk 1000000 1000001 (ex_post ''R001'') ex_db1
     = (Render_success ex_alice ex_session ex_qr, ex_db_marked 1000001)
   \<and> attendances (ex_db_marked 1000001) = [ex_record 1000001]
   \<and> a_timestamp (ex_record 1000001) = 1000001 \<and> a_status (ex_record 1000001) = ''Present''"
proof -
  have v: "validate decimal_pk 1000000 ex_db1 (args_sid (ex_post ''R001'')) (args_token (ex_post ''R001''))
      = Inr (ex_qr, Some ex_session)"
    by (simp add: ex_defs op_defs)
  have m: "req_method (ex_post ''R001'') = POST" and f: "form_roll (ex_post ''R001'') = Some ''R001''"
    by (simp_all add: ex_defs)
  have ne: "''R001'' \<noteq> []" by simp
  have s: "Student_first ex_db1 ''R001'' (cs_batch ex_session) (cs_course ex_session) = Some ex_alice"
    by (simp add: ex_defs op_defs)
  have a: "Attendance_first ex_db1 (s_id ex_alice) (cs_id ex_session) = None"
    by (simp add: ex_defs op_defs)
  have e: "ex_db1\<lparr>attendances := attendances ex_db1 @
       [\<lparr>a_id = next_rowid (map a_id (attendances ex_db1)), a_student_id = s_id ex_alice,
         a_class_session_id = cs_id ex_session, a_timestamp = 1000001, a_status = ''Present''\<rparr>]\<rparr>
       = ex_db_marked 1000001"
    by (simp add: ex_defs op_defs)
  show ?thesis
    using check_in_success_record [OF v m f ne s a, of 1000001]
    by (simp add: e) (simp add: ex_defs)
qed

end
